theory Spec2Isabelle
  imports Main
begin

section \<open>Terminal accessibility contribution\<close>

text \<open>
  A model of \<^verbatim>\<open>terminal.accessibility.contribution.ts\<close>: the accessible-buffer
  contribution of a terminal instance, the accessibility-help implementation and the four
  registered terminal actions. The services the file talks to (terminal service, widget,
  quick pick, accessible-view service) live outside of it; every call to one of them is
  recorded as an event, in program order, and what the host answers is read from a
  \<open>host\<close> record.
\<close>

subsection \<open>Handles and objects\<close>

type_synonym instance_id = nat
type_synonym IXtermTerminal = nat
type_synonym IQuickPick = nat

datatype NavigationType = Next | Previous

text \<open>The widget built by \<^verbatim>\<open>createInstance(AccessibleBufferWidget, this._instance, xterm)\<close>.\<close>

record AccessibleBufferWidget =
  widget_instance :: instance_id
  widget_xterm :: IXtermTerminal

text \<open>The provider built by
  \<^verbatim>\<open>createInstance(TerminalAccessibleContentProvider, instance, terminal)\<close>.\<close>

record TerminalAccessibleContentProvider =
  provider_instance :: instance_id
  provider_xterm :: IXtermTerminal

text \<open>
  \<^verbatim>\<open>class AccessibleBufferContribution extends DisposableStore\<close>: the private fields
  \<^verbatim>\<open>_instance\<close> and \<^verbatim>\<open>_accessibleBufferWidget\<close> (\<open>None\<close> is
  \<^verbatim>\<open>undefined\<close>), and the disposables collected by \<^verbatim>\<open>this.add\<close>.
\<close>

record AccessibleBufferContribution =
  c_instance :: instance_id
  c_accessibleBufferWidget :: "AccessibleBufferWidget option"
  c_disposables :: "AccessibleBufferWidget list"

definition AccessibleBufferContribution_ID :: string where
  "AccessibleBufferContribution_ID = ''terminal.accessible-buffer''"

text \<open>
  A terminal instance as the handlers read it: its xterm (\<open>None\<close> when absent) and the
  contributions attached to it, looked up by identifier
  (\<^verbatim>\<open>instance.getContribution(id)\<close>, \<open>None\<close> is \<^verbatim>\<open>null\<close>).
\<close>

record ITerminalInstance =
  instanceId :: instance_id
  xterm :: "IXtermTerminal option"
  getContribution :: "string \<rightharpoonup> AccessibleBufferContribution"

text \<open>
  What the host answers. Each handler reads the instance in one synchronous stretch after
  \<^verbatim>\<open>await revealActiveTerminal()\<close> has resolved, so the record describes the objects
  as they are at that moment. \<open>getActiveOrCreateInstance\<close> is \<open>None\<close> when the
  awaited value is falsy, the case the handlers test with \<^verbatim>\<open>!instance\<close>.
\<close>

record host =
  getActiveOrCreateInstance :: "ITerminalInstance option"
  createQuickPick :: "AccessibleBufferWidget \<Rightarrow> IQuickPick option"

subsection \<open>Events\<close>

datatype service = IInstantiationService | ITerminalService | IAccessibleViewService

datatype contribution_method = Show | CreateCommandQuickPick | NavigateToCommand NavigationType

datatype event =
    AccessorGet service
  | GetActiveOrCreateInstance
  | RevealActiveTerminal
  | GetContribution instance_id string
  | ContributionCall contribution_method
  | WidgetShow AccessibleBufferWidget
  | WidgetCreateQuickPick AccessibleBufferWidget
  | WidgetNavigateToCommand AccessibleBufferWidget NavigationType
  | QuickPickShow IQuickPick
  | CreateWidget instance_id IXtermTerminal
  | CreateProvider instance_id IXtermTerminal
  | RegisterProvider TerminalAccessibleContentProvider
  | AccessibleViewShow string

fun is_host_service_call :: "event \<Rightarrow> bool" where
  "is_host_service_call GetActiveOrCreateInstance = True"
| "is_host_service_call RevealActiveTerminal = True"
| "is_host_service_call _ = False"

fun is_delegation :: "event \<Rightarrow> bool" where
  "is_delegation (ContributionCall _) = True"
| "is_delegation (WidgetShow _) = True"
| "is_delegation (WidgetCreateQuickPick _) = True"
| "is_delegation (WidgetNavigateToCommand _ _) = True"
| "is_delegation (QuickPickShow _) = True"
| "is_delegation _ = False"

fun is_CreateWidget :: "event \<Rightarrow> bool" where
  "is_CreateWidget (CreateWidget _ _) = True"
| "is_CreateWidget _ = False"

subsection \<open>AccessibleBufferContribution\<close>

text \<open>The constructor: \<^verbatim>\<open>super()\<close> only, the widget field stays undefined.\<close>

definition new_AccessibleBufferContribution :: "instance_id \<Rightarrow> AccessibleBufferContribution" where
  "new_AccessibleBufferContribution i =
     \<lparr>c_instance = i, c_accessibleBufferWidget = None, c_disposables = []\<rparr>"

text \<open>\<^verbatim>\<open>static get(instance)\<close>.\<close>

definition get :: "ITerminalInstance \<Rightarrow> AccessibleBufferContribution option" where
  "get inst = getContribution inst AccessibleBufferContribution_ID"

text \<open>
  \<^verbatim>\<open>layout(xterm)\<close>: the widget is created, stored and added to the disposables only
  when the field is still undefined.
\<close>

definition layout ::
  "IXtermTerminal \<Rightarrow> AccessibleBufferContribution \<Rightarrow> event list \<times> AccessibleBufferContribution" where
  "layout x c =
     (case c_accessibleBufferWidget c of
        None \<Rightarrow>
          (let w = \<lparr>widget_instance = c_instance c, widget_xterm = x\<rparr>
           in ([CreateWidget (c_instance c) x],
               c\<lparr>c_accessibleBufferWidget := Some w, c_disposables := c_disposables c @ [w]\<rparr>))
      | Some _ \<Rightarrow> ([], c))"

text \<open>A sequence of \<^verbatim>\<open>layout\<close> calls on one contribution, one xterm argument per call.\<close>

fun layout_calls ::
  "AccessibleBufferContribution \<Rightarrow> IXtermTerminal list \<Rightarrow> event list \<times> AccessibleBufferContribution" where
  "layout_calls c [] = ([], c)"
| "layout_calls c (x # xs) =
     (case layout x c of (es, c') \<Rightarrow>
        (case layout_calls c' xs of (es', c'') \<Rightarrow> (es @ es', c'')))"

text \<open>\<^verbatim>\<open>async show()\<close>: \<^verbatim>\<open>await this._accessibleBufferWidget?.show()\<close>.\<close>

definition show_contribution :: "AccessibleBufferContribution \<Rightarrow> event list" where
  "show_contribution c =
     (case c_accessibleBufferWidget c of None \<Rightarrow> [] | Some w \<Rightarrow> [WidgetShow w])"

text \<open>\<^verbatim>\<open>async createCommandQuickPick()\<close>: the widget's quick pick, or undefined.\<close>

definition createCommandQuickPick ::
  "host \<Rightarrow> AccessibleBufferContribution \<Rightarrow> event list \<times> IQuickPick option" where
  "createCommandQuickPick h c =
     (case c_accessibleBufferWidget c of
        None \<Rightarrow> ([], None)
      | Some w \<Rightarrow> ([WidgetCreateQuickPick w], createQuickPick h w))"

text \<open>\<^verbatim>\<open>navigateToCommand(type)\<close>.\<close>

definition navigateToCommand :: "NavigationType \<Rightarrow> AccessibleBufferContribution \<Rightarrow> event list" where
  "navigateToCommand t c =
     (case c_accessibleBufferWidget c of
        None \<Rightarrow> []
      | Some w \<Rightarrow> [WidgetNavigateToCommand w t])"

subsection \<open>Context key expressions and key bindings\<close>

datatype contextkey =
    ProcessSupported
  | TerminalHasBeenCreated
  | AccessibleBufferFocus
  | TerminalFocus
  | AccessibilityModeEnabled
  | TerminalTabFocus

datatype ContextKeyExpr =
    Key contextkey
  | Negate ContextKeyExpr
  | And "ContextKeyExpr list"
  | Or "ContextKeyExpr list"

text \<open>
  Modelled from the spec: \<^verbatim>\<open>ContextKeyExpr\<close> is host code
  (\<^verbatim>\<open>vs/platform/contextkey\<close>) and not part of the file. An expression is evaluated in a
  context that gives each key a truth value; \<^verbatim>\<open>and\<close>, \<^verbatim>\<open>or\<close> and
  \<^verbatim>\<open>negate\<close> are conjunction, disjunction and negation.
\<close>

fun evaluate :: "(contextkey \<Rightarrow> bool) \<Rightarrow> ContextKeyExpr \<Rightarrow> bool" where
  "evaluate ctx (Key k) = ctx k"
| "evaluate ctx (Negate e) = (\<not> evaluate ctx e)"
| "evaluate ctx (And es) = list_all (evaluate ctx) es"
| "evaluate ctx (Or es) = list_ex (evaluate ctx) es"

text \<open>
  \<^verbatim>\<open>KeyMod\<close> and \<^verbatim>\<open>KeyCode\<close> are host constants; a chord such as
  \<^verbatim>\<open>KeyMod.CtrlCmd | KeyMod.Shift | KeyCode.KeyO\<close> is kept as its set of modifiers
  and its key.
\<close>

datatype KeyMod = CtrlCmd | Shift | Alt | WinCtrl

datatype KeyCode = Tab | KeyO | DownArrow | UpArrow

text \<open>\<open>kb_weight\<close> is the offset added to \<^verbatim>\<open>KeybindingWeight.WorkbenchContrib\<close>.\<close>

record keybinding =
  kb_primary :: "KeyMod set \<times> KeyCode"
  kb_weight :: nat
  kb_when :: ContextKeyExpr

datatype TerminalCommandId =
    FocusAccessibleBuffer
  | NavigateAccessibleBuffer
  | AccessibleBufferGoToNextCommand
  | AccessibleBufferGoToPreviousCommand

record terminal_action =
  action_id :: TerminalCommandId
  action_title :: string
  action_precondition :: ContextKeyExpr
  action_keybinding :: "keybinding list"
  action_run :: "host \<Rightarrow> event list"

subsection \<open>The accessibility-help implementation\<close>

text \<open>
  The callback given to \<^verbatim>\<open>AccessibilityHelpAction.addImplementation\<close>;
  \<^verbatim>\<open>instance?.xterm\<close> is undefined when the instance is.
\<close>

definition accessibilityHelp_run :: "host \<Rightarrow> event list" where
  "accessibilityHelp_run h =
     [AccessorGet IInstantiationService, AccessorGet ITerminalService,
      AccessorGet IAccessibleViewService, GetActiveOrCreateInstance, RevealActiveTerminal] @
     (case getActiveOrCreateInstance h of
        None \<Rightarrow> []
      | Some inst \<Rightarrow>
          (case xterm inst of
             None \<Rightarrow> []
           | Some terminal \<Rightarrow>
               [CreateProvider (instanceId inst) terminal,
                RegisterProvider \<lparr>provider_instance = instanceId inst, provider_xterm = terminal\<rparr>,
                AccessibleViewShow ''terminal'']))"

record help_implementation =
  impl_priority :: nat
  impl_type :: string
  impl_run :: "host \<Rightarrow> event list"
  impl_when :: ContextKeyExpr

definition TerminalAccessibilityHelpContribution :: help_implementation where
  "TerminalAccessibilityHelpContribution =
     \<lparr>impl_priority = 105, impl_type = ''terminal'', impl_run = accessibilityHelp_run,
      impl_when = Key TerminalFocus\<rparr>"

subsection \<open>The four terminal actions\<close>

text \<open>
  Each \<^verbatim>\<open>run\<close> resolves the instance, reveals the terminal, returns when there is
  no instance, and calls a method of the contribution when
  \<^verbatim>\<open>AccessibleBufferContribution.get(instance)\<close> is not null. The parameter \<open>c\<close>
  stands for the \<^verbatim>\<open>c.service\<close> of the source.
\<close>

definition FocusAccessibleBuffer_run :: "host \<Rightarrow> event list" where
  "FocusAccessibleBuffer_run c =
     GetActiveOrCreateInstance # RevealActiveTerminal #
     (case getActiveOrCreateInstance c of
        None \<Rightarrow> []
      | Some inst \<Rightarrow>
          GetContribution (instanceId inst) AccessibleBufferContribution_ID #
          (case get inst of
             None \<Rightarrow> []
           | Some contribution \<Rightarrow> ContributionCall Show # show_contribution contribution))"

definition NavigateAccessibleBuffer_run :: "host \<Rightarrow> event list" where
  "NavigateAccessibleBuffer_run c =
     GetActiveOrCreateInstance # RevealActiveTerminal #
     (case getActiveOrCreateInstance c of
        None \<Rightarrow> []
      | Some inst \<Rightarrow>
          GetContribution (instanceId inst) AccessibleBufferContribution_ID #
          (case get inst of
             None \<Rightarrow> []
           | Some contribution \<Rightarrow>
               ContributionCall CreateCommandQuickPick #
               (case createCommandQuickPick c contribution of
                  (es, quickPick) \<Rightarrow>
                    es @ (case quickPick of None \<Rightarrow> [] | Some q \<Rightarrow> [QuickPickShow q]))))"

definition AccessibleBufferGoToNextCommand_run :: "host \<Rightarrow> event list" where
  "AccessibleBufferGoToNextCommand_run c =
     GetActiveOrCreateInstance # RevealActiveTerminal #
     (case getActiveOrCreateInstance c of
        None \<Rightarrow> []
      | Some inst \<Rightarrow>
          GetContribution (instanceId inst) AccessibleBufferContribution_ID #
          (case get inst of
             None \<Rightarrow> []
           | Some contribution \<Rightarrow>
               ContributionCall (NavigateToCommand Next) # navigateToCommand Next contribution))"

definition AccessibleBufferGoToPreviousCommand_run :: "host \<Rightarrow> event list" where
  "AccessibleBufferGoToPreviousCommand_run c =
     GetActiveOrCreateInstance # RevealActiveTerminal #
     (case getActiveOrCreateInstance c of
        None \<Rightarrow> []
      | Some inst \<Rightarrow>
          GetContribution (instanceId inst) AccessibleBufferContribution_ID #
          (case get inst of
             None \<Rightarrow> []
           | Some contribution \<Rightarrow>
               ContributionCall (NavigateToCommand Previous) #
               navigateToCommand Previous contribution))"

definition FocusAccessibleBuffer_action :: terminal_action where
  "FocusAccessibleBuffer_action =
     \<lparr>action_id = FocusAccessibleBuffer,
      action_title = ''Focus Accessible Buffer'',
      action_precondition = Or [Key ProcessSupported, Key TerminalHasBeenCreated],
      action_keybinding =
        [\<lparr>kb_primary = ({Shift}, Tab), kb_weight = 0,
          kb_when = And [Key AccessibilityModeEnabled, Key TerminalTabFocus,
                         Negate (Key AccessibleBufferFocus)]\<rparr>],
      action_run = FocusAccessibleBuffer_run\<rparr>"

definition NavigateAccessibleBuffer_action :: terminal_action where
  "NavigateAccessibleBuffer_action =
     \<lparr>action_id = NavigateAccessibleBuffer,
      action_title = ''Navigate Accessible Buffer'',
      action_precondition = Or [Key ProcessSupported, Key TerminalHasBeenCreated],
      action_keybinding =
        [\<lparr>kb_primary = ({CtrlCmd, Shift}, KeyO), kb_weight = 2,
          kb_when = Key AccessibleBufferFocus\<rparr>],
      action_run = NavigateAccessibleBuffer_run\<rparr>"

definition AccessibleBufferGoToNextCommand_action :: terminal_action where
  "AccessibleBufferGoToNextCommand_action =
     \<lparr>action_id = AccessibleBufferGoToNextCommand,
      action_title = ''Accessible Buffer Go to Next Command'',
      action_precondition =
        Or [Key ProcessSupported, Key TerminalHasBeenCreated, Key AccessibleBufferFocus],
      action_keybinding =
        [\<lparr>kb_primary = ({CtrlCmd}, DownArrow), kb_weight = 2,
          kb_when = Key AccessibleBufferFocus\<rparr>],
      action_run = AccessibleBufferGoToNextCommand_run\<rparr>"

definition AccessibleBufferGoToPreviousCommand_action :: terminal_action where
  "AccessibleBufferGoToPreviousCommand_action =
     \<lparr>action_id = AccessibleBufferGoToPreviousCommand,
      action_title = ''Accessible Buffer Go to Previous Command'',
      action_precondition =
        And [Or [Key ProcessSupported, Key TerminalHasBeenCreated], Key AccessibleBufferFocus],
      action_keybinding =
        [\<lparr>kb_primary = ({CtrlCmd}, UpArrow), kb_weight = 2,
          kb_when = Key AccessibleBufferFocus\<rparr>],
      action_run = AccessibleBufferGoToPreviousCommand_run\<rparr>"

text \<open>The registry after the file has been loaded, in registration order.\<close>

definition registered_actions :: "terminal_action list" where
  "registered_actions =
     [FocusAccessibleBuffer_action, NavigateAccessibleBuffer_action,
      AccessibleBufferGoToNextCommand_action, AccessibleBufferGoToPreviousCommand_action]"

text \<open>The five handlers: the four \<^verbatim>\<open>run\<close> functions and the help implementation.\<close>

definition registered_handlers :: "(host \<Rightarrow> event list) list" where
  "registered_handlers =
     map action_run registered_actions @ [impl_run TerminalAccessibilityHelpContribution]"

subsection \<open>Example hosts and contexts\<close>

text \<open>A host whose terminal service yields no instance.\<close>

definition host_no_instance :: host where
  "host_no_instance = \<lparr>getActiveOrCreateInstance = None, createQuickPick = (\<lambda>_. None)\<rparr>"

text \<open>Instance 7 with xterm 3, whose contribution has been laid out once.\<close>

definition example_widget :: AccessibleBufferWidget where
  "example_widget = \<lparr>widget_instance = 7, widget_xterm = 3\<rparr>"

definition example_contribution :: AccessibleBufferContribution where
  "example_contribution = snd (layout 3 (new_AccessibleBufferContribution 7))"

definition example_instance :: ITerminalInstance where
  "example_instance =
     \<lparr>instanceId = 7, xterm = Some 3,
      getContribution = [AccessibleBufferContribution_ID \<mapsto> example_contribution]\<rparr>"

definition host_ready :: host where
  "host_ready =
     \<lparr>getActiveOrCreateInstance = Some example_instance, createQuickPick = (\<lambda>_. Some 11)\<rparr>"

text \<open>Instance 8, which has no xterm yet and whose contribution was never laid out.\<close>

definition example_instance_no_xterm :: ITerminalInstance where
  "example_instance_no_xterm =
     \<lparr>instanceId = 8, xterm = None,
      getContribution = [AccessibleBufferContribution_ID \<mapsto> new_AccessibleBufferContribution 8]\<rparr>"

definition host_no_xterm :: host where
  "host_no_xterm =
     \<lparr>getActiveOrCreateInstance = Some example_instance_no_xterm,
      createQuickPick = (\<lambda>_. None)\<rparr>"

text \<open>
  Every context key on: accessibility mode, terminal focus, terminal tab focus, a supported
  process, a created terminal, and the accessible buffer itself focused.
\<close>

fun ctx_all_on :: "contextkey \<Rightarrow> bool" where
  "ctx_all_on _ = True"

text \<open>Accessibility mode on and the terminal focused; terminal tab focus is off.\<close>

fun ctx_terminal_focused :: "contextkey \<Rightarrow> bool" where
  "ctx_terminal_focused AccessibilityModeEnabled = True"
| "ctx_terminal_focused TerminalFocus = True"
| "ctx_terminal_focused _ = False"

text \<open>
  Accessibility mode on, the terminal focused with terminal tab focus on, the accessible
  buffer not focused; no process is supported and no terminal has been created.
\<close>

fun ctx_tab_focus :: "contextkey \<Rightarrow> bool" where
  "ctx_tab_focus AccessibilityModeEnabled = True"
| "ctx_tab_focus TerminalFocus = True"
| "ctx_tab_focus TerminalTabFocus = True"
| "ctx_tab_focus _ = False"

text \<open>The accessible buffer is focused, nothing else holds.\<close>

fun ctx_buffer_only :: "contextkey \<Rightarrow> bool" where
  "ctx_buffer_only AccessibleBufferFocus = True"
| "ctx_buffer_only _ = False"

text \<open>A terminal process is supported, nothing else holds.\<close>

fun ctx_process_only :: "contextkey \<Rightarrow> bool" where
  "ctx_process_only ProcessSupported = True"
| "ctx_process_only _ = False"


section \<open>Properties\<close>

subsection \<open>Unfolding the registrations\<close>

lemmas run_defs =
  FocusAccessibleBuffer_run_def NavigateAccessibleBuffer_run_def
  AccessibleBufferGoToNextCommand_run_def AccessibleBufferGoToPreviousCommand_run_def

lemmas action_defs =
  FocusAccessibleBuffer_action_def NavigateAccessibleBuffer_action_def
  AccessibleBufferGoToNextCommand_action_def AccessibleBufferGoToPreviousCommand_action_def

lemmas contribution_defs =
  show_contribution_def createCommandQuickPick_def navigateToCommand_def

lemmas example_defs =
  host_no_instance_def host_ready_def host_no_xterm_def example_instance_def
  example_instance_no_xterm_def example_contribution_def example_widget_def
  new_AccessibleBufferContribution_def layout_def get_def

lemma registered_ids:
  "map action_id registered_actions =
     [FocusAccessibleBuffer, NavigateAccessibleBuffer,
      AccessibleBufferGoToNextCommand, AccessibleBufferGoToPreviousCommand]"
  by (simp add: registered_actions_def action_defs)

lemma registered_runs:
  "map action_run registered_actions =
     [FocusAccessibleBuffer_run, NavigateAccessibleBuffer_run,
      AccessibleBufferGoToNextCommand_run, AccessibleBufferGoToPreviousCommand_run]"
  by (simp add: registered_actions_def action_defs)

lemma run_without_instance:
  assumes "getActiveOrCreateInstance h = None"
  shows "FocusAccessibleBuffer_run h = [GetActiveOrCreateInstance, RevealActiveTerminal]"
    and "NavigateAccessibleBuffer_run h = [GetActiveOrCreateInstance, RevealActiveTerminal]"
    and "AccessibleBufferGoToNextCommand_run h = [GetActiveOrCreateInstance, RevealActiveTerminal]"
    and "AccessibleBufferGoToPreviousCommand_run h =
           [GetActiveOrCreateInstance, RevealActiveTerminal]"
  using assms by (simp_all add: run_defs)

text \<open>Every run starts with the two terminal-service calls, whatever the host answers.\<close>

lemma run_shape:
  "\<exists>rest. FocusAccessibleBuffer_run h = GetActiveOrCreateInstance # RevealActiveTerminal # rest
          \<and> list_all (\<lambda>e. \<not> is_host_service_call e) rest"
  "\<exists>rest. NavigateAccessibleBuffer_run h = GetActiveOrCreateInstance # RevealActiveTerminal # rest
          \<and> list_all (\<lambda>e. \<not> is_host_service_call e) rest"
  "\<exists>rest. AccessibleBufferGoToNextCommand_run h =
            GetActiveOrCreateInstance # RevealActiveTerminal # rest
          \<and> list_all (\<lambda>e. \<not> is_host_service_call e) rest"
  "\<exists>rest. AccessibleBufferGoToPreviousCommand_run h =
            GetActiveOrCreateInstance # RevealActiveTerminal # rest
          \<and> list_all (\<lambda>e. \<not> is_host_service_call e) rest"
  by (simp_all add: run_defs contribution_defs split: option.split prod.split)

lemma layout_existing:
  "c_accessibleBufferWidget c = Some w \<Longrightarrow> layout x c = ([], c)"
  by (simp add: layout_def)

lemma layout_calls_existing:
  "c_accessibleBufferWidget c = Some w \<Longrightarrow> layout_calls c xs = ([], c)"
  by (induction xs) (simp_all add: layout_existing)

lemma layout_sets_widget:
  "\<exists>w. c_accessibleBufferWidget (snd (layout x c)) = Some w"
  by (cases "c_accessibleBufferWidget c") (simp_all add: layout_def Let_def)

lemma layout_creates_at_most_one:
  "length (filter is_CreateWidget (fst (layout x c))) \<le> 1"
  by (cases "c_accessibleBufferWidget c") (simp_all add: layout_def Let_def)

subsection \<open>The claims\<close>

text \<open>
  C1. For each of the four registered actions (FocusAccessibleBuffer,
  NavigateAccessibleBuffer, AccessibleBufferGoToNextCommand,
  AccessibleBufferGoToPreviousCommand): when resolving the active terminal yields no
  instance, the run consists of the two terminal-service calls only. It ends there by the
  early return, with no lookup of the contribution, no call of \<open>show\<close>, no quick pick
  and no navigation.
\<close>

theorem no_instance_no_delegation:
  assumes "getActiveOrCreateInstance h = None"
  shows "map action_id registered_actions =
           [FocusAccessibleBuffer, NavigateAccessibleBuffer,
            AccessibleBufferGoToNextCommand, AccessibleBufferGoToPreviousCommand]
       \<and> list_all (\<lambda>a. action_run a h = [GetActiveOrCreateInstance, RevealActiveTerminal]
                        \<and> \<not> list_ex is_delegation (action_run a h))
           registered_actions"
proof -
  have "list_all (\<lambda>r. r h = [GetActiveOrCreateInstance, RevealActiveTerminal]
                      \<and> \<not> list_ex is_delegation (r h))
          (map action_run registered_actions)"
    unfolding registered_runs using run_without_instance [OF assms] by simp
  then show ?thesis
    by (simp add: registered_ids list_all_iff)
qed

theorem no_instance_no_delegation_witness:
  "getActiveOrCreateInstance host_no_instance = None
   \<and> list_all (\<lambda>a. action_run a host_no_instance =
                     [GetActiveOrCreateInstance, RevealActiveTerminal])
       registered_actions"
proof -
  have h: "getActiveOrCreateInstance host_no_instance = None"
    by (simp add: host_no_instance_def)
  from no_instance_no_delegation [OF h] show ?thesis
    using h by (simp add: list_all_iff)
qed

text \<open>
  C2. The registry holds the four actions. Whatever the host answers, the run of each
  starts with \<open>getActiveOrCreateInstance\<close>, then \<open>revealActiveTerminal\<close>, and
  neither call occurs again. When an instance with the contribution is obtained, the
  third and fourth steps of each run are the lookup of the contribution and the call of
  its method: \<open>show\<close>, \<open>createCommandQuickPick\<close>, \<open>navigateToCommand\<close> with
  \<open>Next\<close> and with \<open>Previous\<close>. So each handler does delegate, and only after the
  terminal has been revealed.
\<close>

theorem reveal_precedes_delegation:
  "map action_id registered_actions =
     [FocusAccessibleBuffer, NavigateAccessibleBuffer,
      AccessibleBufferGoToNextCommand, AccessibleBufferGoToPreviousCommand]
   \<and> list_all
       (\<lambda>a. take 2 (action_run a h) = [GetActiveOrCreateInstance, RevealActiveTerminal]
            \<and> list_all (\<lambda>e. \<not> is_host_service_call e) (drop 2 (action_run a h)))
       registered_actions
   \<and> (getActiveOrCreateInstance h = Some inst \<and> get inst = Some c \<longrightarrow>
        map (\<lambda>a. take 4 (action_run a h)) registered_actions =
          [[GetActiveOrCreateInstance, RevealActiveTerminal,
            GetContribution (instanceId inst) AccessibleBufferContribution_ID,
            ContributionCall Show],
           [GetActiveOrCreateInstance, RevealActiveTerminal,
            GetContribution (instanceId inst) AccessibleBufferContribution_ID,
            ContributionCall CreateCommandQuickPick],
           [GetActiveOrCreateInstance, RevealActiveTerminal,
            GetContribution (instanceId inst) AccessibleBufferContribution_ID,
            ContributionCall (NavigateToCommand Next)],
           [GetActiveOrCreateInstance, RevealActiveTerminal,
            GetContribution (instanceId inst) AccessibleBufferContribution_ID,
            ContributionCall (NavigateToCommand Previous)]]
        \<and> list_all (\<lambda>a. list_ex is_delegation (drop 2 (action_run a h))) registered_actions)"
proof (intro conjI impI)
  show "map action_id registered_actions =
     [FocusAccessibleBuffer, NavigateAccessibleBuffer,
      AccessibleBufferGoToNextCommand, AccessibleBufferGoToPreviousCommand]"
    by (rule registered_ids)
next
  have shape: "take 2 t = [GetActiveOrCreateInstance, RevealActiveTerminal]
      \<and> list_all (\<lambda>e. \<not> is_host_service_call e) (drop 2 t)"
    if "\<exists>rest. t = GetActiveOrCreateInstance # RevealActiveTerminal # rest
          \<and> list_all (\<lambda>e. \<not> is_host_service_call e) rest" for t
    using that by auto
  have "list_all
     (\<lambda>r. take 2 (r h) = [GetActiveOrCreateInstance, RevealActiveTerminal]
          \<and> list_all (\<lambda>e. \<not> is_host_service_call e) (drop 2 (r h)))
     (map action_run registered_actions)"
    unfolding registered_runs
    using shape [OF run_shape(1) [of h]] shape [OF run_shape(2) [of h]]
      shape [OF run_shape(3) [of h]] shape [OF run_shape(4) [of h]]
    by simp
  then show "list_all
       (\<lambda>a. take 2 (action_run a h) = [GetActiveOrCreateInstance, RevealActiveTerminal]
            \<and> list_all (\<lambda>e. \<not> is_host_service_call e) (drop 2 (action_run a h)))
       registered_actions"
    by (simp add: list_all_iff)
next
  assume present: "getActiveOrCreateInstance h = Some inst \<and> get inst = Some c"
  have "map (\<lambda>r. take 4 (r h)) (map action_run registered_actions) =
          [[GetActiveOrCreateInstance, RevealActiveTerminal,
            GetContribution (instanceId inst) AccessibleBufferContribution_ID,
            ContributionCall Show],
           [GetActiveOrCreateInstance, RevealActiveTerminal,
            GetContribution (instanceId inst) AccessibleBufferContribution_ID,
            ContributionCall CreateCommandQuickPick],
           [GetActiveOrCreateInstance, RevealActiveTerminal,
            GetContribution (instanceId inst) AccessibleBufferContribution_ID,
            ContributionCall (NavigateToCommand Next)],
           [GetActiveOrCreateInstance, RevealActiveTerminal,
            GetContribution (instanceId inst) AccessibleBufferContribution_ID,
            ContributionCall (NavigateToCommand Previous)]]"
    unfolding registered_runs using present by (simp add: run_defs)
  then show "map (\<lambda>a. take 4 (action_run a h)) registered_actions =
          [[GetActiveOrCreateInstance, RevealActiveTerminal,
            GetContribution (instanceId inst) AccessibleBufferContribution_ID,
            ContributionCall Show],
           [GetActiveOrCreateInstance, RevealActiveTerminal,
            GetContribution (instanceId inst) AccessibleBufferContribution_ID,
            ContributionCall CreateCommandQuickPick],
           [GetActiveOrCreateInstance, RevealActiveTerminal,
            GetContribution (instanceId inst) AccessibleBufferContribution_ID,
            ContributionCall (NavigateToCommand Next)],
           [GetActiveOrCreateInstance, RevealActiveTerminal,
            GetContribution (instanceId inst) AccessibleBufferContribution_ID,
            ContributionCall (NavigateToCommand Previous)]]"
    by (simp add: comp_def)
next
  assume present: "getActiveOrCreateInstance h = Some inst \<and> get inst = Some c"
  have "list_all (\<lambda>r. list_ex is_delegation (drop 2 (r h)))
          (map action_run registered_actions)"
    unfolding registered_runs using present by (simp add: run_defs)
  then show "list_all (\<lambda>a. list_ex is_delegation (drop 2 (action_run a h))) registered_actions"
    by (simp add: list_all_iff)
qed

theorem reveal_precedes_delegation_witness:
  "getActiveOrCreateInstance host_ready = Some example_instance
   \<and> get example_instance = Some example_contribution
   \<and> map (\<lambda>a. take 4 (action_run a host_ready)) registered_actions =
       [[GetActiveOrCreateInstance, RevealActiveTerminal,
         GetContribution 7 ''terminal.accessible-buffer'', ContributionCall Show],
        [GetActiveOrCreateInstance, RevealActiveTerminal,
         GetContribution 7 ''terminal.accessible-buffer'',
         ContributionCall CreateCommandQuickPick],
        [GetActiveOrCreateInstance, RevealActiveTerminal,
         GetContribution 7 ''terminal.accessible-buffer'',
         ContributionCall (NavigateToCommand Next)],
        [GetActiveOrCreateInstance, RevealActiveTerminal,
         GetContribution 7 ''terminal.accessible-buffer'',
         ContributionCall (NavigateToCommand Previous)]]"
proof -
  have 1: "getActiveOrCreateInstance host_ready = Some example_instance"
    by (simp add: host_ready_def)
  have 2: "get example_instance = Some example_contribution"
    by (simp add: get_def example_instance_def)
  have 3: "instanceId example_instance = 7"
    by (simp add: example_instance_def)
  from reveal_precedes_delegation [of host_ready example_instance example_contribution]
  show ?thesis
    using 1 2 3 by (simp add: AccessibleBufferContribution_ID_def)
qed

text \<open>
  C3. Over any sequence of \<open>layout\<close> calls on a contribution the widget is constructed at
  most once. On a fresh contribution the first call constructs it, from the xterm of that
  call, and the whole sequence leaves exactly that widget; a \<open>layout\<close> call after another
  one changes nothing and constructs nothing.
\<close>

theorem layout_constructs_widget_once:
  "length (filter is_CreateWidget (fst (layout_calls c xs))) \<le> 1
   \<and> layout_calls (new_AccessibleBufferContribution i) (x # xs) =
       ([CreateWidget i x],
        \<lparr>c_instance = i,
         c_accessibleBufferWidget = Some \<lparr>widget_instance = i, widget_xterm = x\<rparr>,
         c_disposables = [\<lparr>widget_instance = i, widget_xterm = x\<rparr>]\<rparr>)
   \<and> layout y (snd (layout x c)) = ([], snd (layout x c))"
proof (intro conjI)
  show "length (filter is_CreateWidget (fst (layout_calls c xs))) \<le> 1"
  proof (cases xs)
    case Nil
    then show ?thesis by simp
  next
    case (Cons z zs)
    obtain w where w: "c_accessibleBufferWidget (snd (layout z c)) = Some w"
      using layout_sets_widget by blast
    have "fst (layout_calls c (z # zs)) = fst (layout z c)"
      using layout_calls_existing [OF w, of zs]
      by (cases "layout z c") simp
    then have "length (filter is_CreateWidget (fst (layout_calls c (z # zs)))) \<le> 1"
      by (simp only: layout_creates_at_most_one)
    with Cons show ?thesis
      by (simp only:)
  qed
next
  let ?w = "\<lparr>widget_instance = i, widget_xterm = x\<rparr>"
  let ?c = "\<lparr>c_instance = i, c_accessibleBufferWidget = Some ?w, c_disposables = [?w]\<rparr>"
  have first: "layout x (new_AccessibleBufferContribution i) = ([CreateWidget i x], ?c)"
    by (simp add: layout_def new_AccessibleBufferContribution_def Let_def)
  have "layout_calls ?c xs = ([], ?c)"
    by (rule layout_calls_existing [where w = ?w]) simp
  with first show "layout_calls (new_AccessibleBufferContribution i) (x # xs) =
      ([CreateWidget i x], ?c)"
    by simp
next
  obtain w where "c_accessibleBufferWidget (snd (layout x c)) = Some w"
    using layout_sets_widget by blast
  then show "layout y (snd (layout x c)) = ([], snd (layout x c))"
    by (rule layout_existing)
qed

text \<open>
  C4, as the claim states it, fails. With every context key on, accessibility mode is on
  and the terminal is focused (terminal focus and terminal tab focus both hold), yet the
  condition of the Shift+Tab binding is false, because the accessible buffer is focused.
  With accessibility mode on and the terminal focused but terminal tab focus off, the
  condition is false as well. And with accessibility mode, terminal focus and terminal tab
  focus on but no process supported and no terminal created, the precondition of the
  action, its enablement, is false.
\<close>

theorem focus_keybinding_counterexample:
  "ctx_all_on AccessibilityModeEnabled \<and> ctx_all_on TerminalFocus
   \<and> ctx_all_on TerminalTabFocus
   \<and> map (evaluate ctx_all_on)
         (map kb_when (action_keybinding FocusAccessibleBuffer_action)) = [False]
   \<and> ctx_terminal_focused AccessibilityModeEnabled \<and> ctx_terminal_focused TerminalFocus
   \<and> map (evaluate ctx_terminal_focused)
         (map kb_when (action_keybinding FocusAccessibleBuffer_action)) = [False]
   \<and> ctx_tab_focus AccessibilityModeEnabled \<and> ctx_tab_focus TerminalFocus
   \<and> ctx_tab_focus TerminalTabFocus
   \<and> evaluate ctx_tab_focus (action_precondition FocusAccessibleBuffer_action) = False"
  by (simp add: FocusAccessibleBuffer_action_def)

text \<open>
  C4, amended. FocusAccessibleBuffer is bound to Shift+Tab with a key binding condition
  that holds when accessibility mode is on, terminal tab focus is on and the accessible
  buffer is not focused; when run it reveals the terminal and shows the accessible buffer
  through the contribution's \<open>show\<close>. The run is stated on an instance whose
  contribution has its widget, the case in which there is a buffer to show. The
  precondition of the action, that a process is supported or a terminal has been created,
  is a separate condition.
\<close>

theorem FocusAccessibleBuffer_registration:
  assumes "getActiveOrCreateInstance h = Some inst"
    and "get inst = Some c"
    and "c_accessibleBufferWidget c = Some w"
  shows "map kb_primary (action_keybinding FocusAccessibleBuffer_action) = [({Shift}, Tab)]
       \<and> map (\<lambda>k. evaluate ctx (kb_when k)) (action_keybinding FocusAccessibleBuffer_action) =
           [ctx AccessibilityModeEnabled \<and> ctx TerminalTabFocus \<and> \<not> ctx AccessibleBufferFocus]
       \<and> evaluate ctx (action_precondition FocusAccessibleBuffer_action) =
           (ctx ProcessSupported \<or> ctx TerminalHasBeenCreated)
       \<and> action_run FocusAccessibleBuffer_action h =
           [GetActiveOrCreateInstance, RevealActiveTerminal,
            GetContribution (instanceId inst) AccessibleBufferContribution_ID,
            ContributionCall Show, WidgetShow w]"
  using assms
  by (simp add: FocusAccessibleBuffer_action_def FocusAccessibleBuffer_run_def
      show_contribution_def)

theorem FocusAccessibleBuffer_registration_witness:
  "getActiveOrCreateInstance host_ready = Some example_instance
   \<and> get example_instance = Some example_contribution
   \<and> c_accessibleBufferWidget example_contribution = Some example_widget
   \<and> ctx_tab_focus AccessibilityModeEnabled \<and> ctx_tab_focus TerminalTabFocus
   \<and> \<not> ctx_tab_focus AccessibleBufferFocus
   \<and> map (\<lambda>k. evaluate ctx_tab_focus (kb_when k))
         (action_keybinding FocusAccessibleBuffer_action) = [True]
   \<and> action_run FocusAccessibleBuffer_action host_ready =
       [GetActiveOrCreateInstance, RevealActiveTerminal,
        GetContribution 7 ''terminal.accessible-buffer'',
        ContributionCall Show, WidgetShow example_widget]"
proof -
  have 1: "getActiveOrCreateInstance host_ready = Some example_instance"
    by (simp add: host_ready_def)
  have 2: "get example_instance = Some example_contribution"
    by (simp add: get_def example_instance_def)
  have 3: "c_accessibleBufferWidget example_contribution = Some example_widget"
    by (simp add: example_contribution_def example_widget_def layout_def
        new_AccessibleBufferContribution_def Let_def)
  have 4: "instanceId example_instance = 7"
    by (simp add: example_instance_def)
  from FocusAccessibleBuffer_registration [OF 1 2 3, of ctx_tab_focus]
  show ?thesis
    using 1 2 3 4 by (simp add: AccessibleBufferContribution_ID_def)
qed

text \<open>
  C5, as the claim states it, fails. With the accessible buffer focused and nothing else,
  the condition of the Ctrl/Cmd+Shift+O binding holds, but the precondition of
  NavigateAccessibleBuffer, its enablement, is false: the command is not enabled whenever
  the accessible buffer is focused.
\<close>

theorem navigate_enablement_counterexample:
  "ctx_buffer_only AccessibleBufferFocus
   \<and> map (evaluate ctx_buffer_only)
         (map kb_when (action_keybinding NavigateAccessibleBuffer_action)) = [True]
   \<and> evaluate ctx_buffer_only (action_precondition NavigateAccessibleBuffer_action) = False"
  by (simp add: NavigateAccessibleBuffer_action_def)

text \<open>
  C5, amended. NavigateAccessibleBuffer is bound to Ctrl/Cmd+Shift+O with a key binding
  condition that holds exactly when the accessible buffer is focused; when run it creates
  the command quick pick through the contribution and shows it. The run is stated on an
  instance whose contribution has its widget and whose widget returns a quick pick. The
  precondition of the action, that a process is supported or a terminal has been created,
  is a separate condition.
\<close>

theorem NavigateAccessibleBuffer_registration:
  assumes "getActiveOrCreateInstance h = Some inst"
    and "get inst = Some c"
    and "c_accessibleBufferWidget c = Some w"
    and "createQuickPick h w = Some q"
  shows "map kb_primary (action_keybinding NavigateAccessibleBuffer_action) =
           [({CtrlCmd, Shift}, KeyO)]
       \<and> map (\<lambda>k. evaluate ctx (kb_when k)) (action_keybinding NavigateAccessibleBuffer_action) =
           [ctx AccessibleBufferFocus]
       \<and> evaluate ctx (action_precondition NavigateAccessibleBuffer_action) =
           (ctx ProcessSupported \<or> ctx TerminalHasBeenCreated)
       \<and> action_run NavigateAccessibleBuffer_action h =
           [GetActiveOrCreateInstance, RevealActiveTerminal,
            GetContribution (instanceId inst) AccessibleBufferContribution_ID,
            ContributionCall CreateCommandQuickPick, WidgetCreateQuickPick w, QuickPickShow q]"
  using assms
  by (simp add: NavigateAccessibleBuffer_action_def NavigateAccessibleBuffer_run_def
      createCommandQuickPick_def)

theorem NavigateAccessibleBuffer_registration_witness:
  "getActiveOrCreateInstance host_ready = Some example_instance
   \<and> get example_instance = Some example_contribution
   \<and> c_accessibleBufferWidget example_contribution = Some example_widget
   \<and> createQuickPick host_ready example_widget = Some 11
   \<and> action_run NavigateAccessibleBuffer_action host_ready =
       [GetActiveOrCreateInstance, RevealActiveTerminal,
        GetContribution 7 ''terminal.accessible-buffer'',
        ContributionCall CreateCommandQuickPick, WidgetCreateQuickPick example_widget,
        QuickPickShow 11]"
proof -
  have 1: "getActiveOrCreateInstance host_ready = Some example_instance"
    by (simp add: host_ready_def)
  have 2: "get example_instance = Some example_contribution"
    by (simp add: get_def example_instance_def)
  have 3: "c_accessibleBufferWidget example_contribution = Some example_widget"
    by (simp add: example_contribution_def example_widget_def layout_def
        new_AccessibleBufferContribution_def Let_def)
  have 4: "createQuickPick host_ready example_widget = Some 11"
    by (simp add: host_ready_def)
  have 5: "instanceId example_instance = 7"
    by (simp add: example_instance_def)
  from NavigateAccessibleBuffer_registration [OF 1 2 3 4]
  show ?thesis
    using 1 2 3 4 5 by (simp add: AccessibleBufferContribution_ID_def)
qed

text \<open>
  C6. AccessibleBufferGoToNextCommand is bound to Ctrl/Cmd+Down and
  AccessibleBufferGoToPreviousCommand to Ctrl/Cmd+Up, each under a condition that holds
  exactly when the accessible buffer is focused. On an instance whose contribution has its
  widget their runs call \<open>navigateToCommand\<close> with \<open>Next\<close> and with \<open>Previous\<close>, which
  the widget receives unchanged.
\<close>

theorem GoToCommand_registrations:
  assumes "getActiveOrCreateInstance h = Some inst"
    and "get inst = Some c"
    and "c_accessibleBufferWidget c = Some w"
  shows "map kb_primary (action_keybinding AccessibleBufferGoToNextCommand_action) =
           [({CtrlCmd}, DownArrow)]
       \<and> map kb_primary (action_keybinding AccessibleBufferGoToPreviousCommand_action) =
           [({CtrlCmd}, UpArrow)]
       \<and> map (\<lambda>k. evaluate ctx (kb_when k))
           (action_keybinding AccessibleBufferGoToNextCommand_action) =
           [ctx AccessibleBufferFocus]
       \<and> map (\<lambda>k. evaluate ctx (kb_when k))
           (action_keybinding AccessibleBufferGoToPreviousCommand_action) =
           [ctx AccessibleBufferFocus]
       \<and> action_run AccessibleBufferGoToNextCommand_action h =
           [GetActiveOrCreateInstance, RevealActiveTerminal,
            GetContribution (instanceId inst) AccessibleBufferContribution_ID,
            ContributionCall (NavigateToCommand Next), WidgetNavigateToCommand w Next]
       \<and> action_run AccessibleBufferGoToPreviousCommand_action h =
           [GetActiveOrCreateInstance, RevealActiveTerminal,
            GetContribution (instanceId inst) AccessibleBufferContribution_ID,
            ContributionCall (NavigateToCommand Previous), WidgetNavigateToCommand w Previous]"
  using assms
  by (simp add: AccessibleBufferGoToNextCommand_action_def
      AccessibleBufferGoToPreviousCommand_action_def AccessibleBufferGoToNextCommand_run_def
      AccessibleBufferGoToPreviousCommand_run_def navigateToCommand_def)

theorem GoToCommand_registrations_witness:
  "getActiveOrCreateInstance host_ready = Some example_instance
   \<and> get example_instance = Some example_contribution
   \<and> c_accessibleBufferWidget example_contribution = Some example_widget
   \<and> action_run AccessibleBufferGoToNextCommand_action host_ready =
       [GetActiveOrCreateInstance, RevealActiveTerminal,
        GetContribution 7 ''terminal.accessible-buffer'',
        ContributionCall (NavigateToCommand Next), WidgetNavigateToCommand example_widget Next]
   \<and> action_run AccessibleBufferGoToPreviousCommand_action host_ready =
       [GetActiveOrCreateInstance, RevealActiveTerminal,
        GetContribution 7 ''terminal.accessible-buffer'',
        ContributionCall (NavigateToCommand Previous),
        WidgetNavigateToCommand example_widget Previous]"
proof -
  have 1: "getActiveOrCreateInstance host_ready = Some example_instance"
    by (simp add: host_ready_def)
  have 2: "get example_instance = Some example_contribution"
    by (simp add: get_def example_instance_def)
  have 3: "c_accessibleBufferWidget example_contribution = Some example_widget"
    by (simp add: example_contribution_def example_widget_def layout_def
        new_AccessibleBufferContribution_def Let_def)
  have 4: "instanceId example_instance = 7"
    by (simp add: example_instance_def)
  from GoToCommand_registrations [OF 1 2 3]
  show ?thesis
    using 1 2 3 4 by (simp add: AccessibleBufferContribution_ID_def)
qed

text \<open>
  C7. The help implementation registered by TerminalAccessibilityHelpContribution resolves
  the instance and reveals the terminal; when the instance has an xterm it then creates a
  TerminalAccessibleContentProvider for the two, registers it with the accessible-view
  service and shows the view named \<open>terminal\<close>; when the instance has no xterm it stops
  after revealing, with nothing registered and nothing shown.
\<close>

theorem accessibilityHelp_implementation:
  assumes "getActiveOrCreateInstance h = Some inst"
  shows "(xterm inst = Some t \<longrightarrow>
            impl_run TerminalAccessibilityHelpContribution h =
              [AccessorGet IInstantiationService, AccessorGet ITerminalService,
               AccessorGet IAccessibleViewService,
               GetActiveOrCreateInstance, RevealActiveTerminal,
               CreateProvider (instanceId inst) t,
               RegisterProvider \<lparr>provider_instance = instanceId inst, provider_xterm = t\<rparr>,
               AccessibleViewShow ''terminal''])
       \<and> (xterm inst = None \<longrightarrow>
            impl_run TerminalAccessibilityHelpContribution h =
              [AccessorGet IInstantiationService, AccessorGet ITerminalService,
               AccessorGet IAccessibleViewService,
               GetActiveOrCreateInstance, RevealActiveTerminal])"
  using assms
  by (simp add: TerminalAccessibilityHelpContribution_def accessibilityHelp_run_def)

theorem accessibilityHelp_implementation_witness:
  "getActiveOrCreateInstance host_ready = Some example_instance
   \<and> xterm example_instance = Some 3
   \<and> impl_run TerminalAccessibilityHelpContribution host_ready =
       [AccessorGet IInstantiationService, AccessorGet ITerminalService,
        AccessorGet IAccessibleViewService,
        GetActiveOrCreateInstance, RevealActiveTerminal,
        CreateProvider 7 3,
        RegisterProvider \<lparr>provider_instance = 7, provider_xterm = 3\<rparr>,
        AccessibleViewShow ''terminal'']
   \<and> getActiveOrCreateInstance host_no_xterm = Some example_instance_no_xterm
   \<and> xterm example_instance_no_xterm = None
   \<and> impl_run TerminalAccessibilityHelpContribution host_no_xterm =
       [AccessorGet IInstantiationService, AccessorGet ITerminalService,
        AccessorGet IAccessibleViewService,
        GetActiveOrCreateInstance, RevealActiveTerminal]"
proof -
  have 1: "getActiveOrCreateInstance host_ready = Some example_instance"
    by (simp add: host_ready_def)
  have 2: "xterm example_instance = Some 3" "instanceId example_instance = 7"
    by (simp_all add: example_instance_def)
  have 3: "getActiveOrCreateInstance host_no_xterm = Some example_instance_no_xterm"
    by (simp add: host_no_xterm_def)
  have 4: "xterm example_instance_no_xterm = None"
    by (simp add: example_instance_no_xterm_def)
  from accessibilityHelp_implementation [OF 1, of 3]
    accessibilityHelp_implementation [OF 3, of 0]
  show ?thesis
    using 1 2 3 4 by simp
qed

text \<open>
  C8. The three methods of the contribution only forward to the widget. With a widget,
  \<open>show\<close> shows it, \<open>createCommandQuickPick\<close> returns what the widget's
  \<open>createQuickPick\<close> returns, and \<open>navigateToCommand\<close> passes its argument on. Without
  one, and so on a contribution that was never laid out, \<open>show\<close> has no effect,
  \<open>createCommandQuickPick\<close> returns undefined and \<open>navigateToCommand\<close> does nothing.
\<close>

theorem contribution_methods_delegate:
  "(c_accessibleBufferWidget c = Some w \<longrightarrow>
      show_contribution c = [WidgetShow w]
      \<and> createCommandQuickPick h c = ([WidgetCreateQuickPick w], createQuickPick h w)
      \<and> navigateToCommand t c = [WidgetNavigateToCommand w t])
   \<and> (c_accessibleBufferWidget c = None \<longrightarrow>
      show_contribution c = []
      \<and> createCommandQuickPick h c = ([], None)
      \<and> navigateToCommand t c = [])
   \<and> c_accessibleBufferWidget (new_AccessibleBufferContribution i) = None"
  by (simp add: show_contribution_def createCommandQuickPick_def navigateToCommand_def
      new_AccessibleBufferContribution_def)

theorem contribution_methods_delegate_witness:
  "c_accessibleBufferWidget example_contribution = Some example_widget
   \<and> show_contribution example_contribution = [WidgetShow example_widget]
   \<and> createCommandQuickPick host_ready example_contribution =
       ([WidgetCreateQuickPick example_widget], Some 11)
   \<and> navigateToCommand Previous example_contribution =
       [WidgetNavigateToCommand example_widget Previous]
   \<and> c_accessibleBufferWidget (new_AccessibleBufferContribution 8) = None
   \<and> show_contribution (new_AccessibleBufferContribution 8) = []
   \<and> createCommandQuickPick host_ready (new_AccessibleBufferContribution 8) = ([], None)
   \<and> navigateToCommand Next (new_AccessibleBufferContribution 8) = []"
proof -
  have 1: "c_accessibleBufferWidget example_contribution = Some example_widget"
    by (simp add: example_contribution_def example_widget_def layout_def
        new_AccessibleBufferContribution_def Let_def)
  have 2: "createQuickPick host_ready example_widget = Some 11"
    by (simp add: host_ready_def)
  from contribution_methods_delegate
      [of example_contribution example_widget host_ready Previous 8]
    contribution_methods_delegate
      [of "new_AccessibleBufferContribution 8" example_widget host_ready Next 8]
  show ?thesis
    using 1 2 by simp
qed

text \<open>
  C9. Each of the five handlers calls \<open>revealActiveTerminal\<close> on every run, before it
  looks at what it got: the call is in the trace whatever the host answers. With no
  instance every handler stops right after it, and so does the help implementation on an
  instance without xterm; the trace of such a run is not empty, the terminal has been
  revealed.
\<close>

theorem reveal_on_failure_path:
  "length registered_handlers = 5
   \<and> list_all (\<lambda>r. RevealActiveTerminal \<in> set (r h)) registered_handlers
   \<and> (getActiveOrCreateInstance h = None \<longrightarrow>
        list_all (\<lambda>r. r h \<noteq> [] \<and> last (r h) = RevealActiveTerminal) registered_handlers)
   \<and> (getActiveOrCreateInstance h = Some inst \<and> xterm inst = None \<longrightarrow>
        last (impl_run TerminalAccessibilityHelpContribution h) = RevealActiveTerminal)"
proof -
  have handlers: "registered_handlers =
      [FocusAccessibleBuffer_run, NavigateAccessibleBuffer_run,
       AccessibleBufferGoToNextCommand_run, AccessibleBufferGoToPreviousCommand_run,
       accessibilityHelp_run]"
    by (simp add: registered_handlers_def registered_runs
        TerminalAccessibilityHelpContribution_def)
  have always: "list_all (\<lambda>r. RevealActiveTerminal \<in> set (r h)) registered_handlers"
    unfolding handlers by (simp add: run_defs accessibilityHelp_run_def)
  have absent: "list_all (\<lambda>r. r h \<noteq> [] \<and> last (r h) = RevealActiveTerminal) registered_handlers"
    if "getActiveOrCreateInstance h = None"
    unfolding handlers using run_without_instance [OF that] that
    by (simp add: accessibilityHelp_run_def)
  have no_xterm: "last (impl_run TerminalAccessibilityHelpContribution h) = RevealActiveTerminal"
    if "getActiveOrCreateInstance h = Some inst" "xterm inst = None"
    using that by (simp add: TerminalAccessibilityHelpContribution_def accessibilityHelp_run_def)
  from always absent no_xterm show ?thesis
    by (simp add: handlers)
qed

theorem reveal_on_failure_path_witness:
  "getActiveOrCreateInstance host_no_instance = None
   \<and> list_all (\<lambda>r. last (r host_no_instance) = RevealActiveTerminal) registered_handlers
   \<and> getActiveOrCreateInstance host_no_xterm = Some example_instance_no_xterm
   \<and> xterm example_instance_no_xterm = None
   \<and> last (impl_run TerminalAccessibilityHelpContribution host_no_xterm) = RevealActiveTerminal"
proof -
  have 1: "getActiveOrCreateInstance host_no_instance = None"
    by (simp add: host_no_instance_def)
  have 2: "getActiveOrCreateInstance host_no_xterm = Some example_instance_no_xterm"
    by (simp add: host_no_xterm_def)
  have 3: "xterm example_instance_no_xterm = None"
    by (simp add: example_instance_no_xterm_def)
  from reveal_on_failure_path [of host_no_instance example_instance_no_xterm]
    reveal_on_failure_path [of host_no_xterm example_instance_no_xterm]
  show ?thesis
    using 1 2 3 by (simp add: list_all_iff)
qed

text \<open>
  C10. The precondition of AccessibleBufferGoToNextCommand is the disjunction of
  processSupported, terminalHasBeenCreated and accessibleBufferFocus; the precondition of
  AccessibleBufferGoToPreviousCommand is the disjunction of the first two in conjunction
  with accessibleBufferFocus. In a context where only processSupported holds the first is
  true and the second is false.
\<close>

theorem navigation_preconditions_asymmetric:
  "action_precondition AccessibleBufferGoToNextCommand_action =
     Or [Key ProcessSupported, Key TerminalHasBeenCreated, Key AccessibleBufferFocus]
   \<and> action_precondition AccessibleBufferGoToPreviousCommand_action =
     And [Or [Key ProcessSupported, Key TerminalHasBeenCreated], Key AccessibleBufferFocus]
   \<and> evaluate ctx (action_precondition AccessibleBufferGoToNextCommand_action) =
       (ctx ProcessSupported \<or> ctx TerminalHasBeenCreated \<or> ctx AccessibleBufferFocus)
   \<and> evaluate ctx (action_precondition AccessibleBufferGoToPreviousCommand_action) =
       ((ctx ProcessSupported \<or> ctx TerminalHasBeenCreated) \<and> ctx AccessibleBufferFocus)
   \<and> evaluate ctx_process_only (action_precondition AccessibleBufferGoToNextCommand_action)
   \<and> \<not> evaluate ctx_process_only
         (action_precondition AccessibleBufferGoToPreviousCommand_action)"
  by (simp add: AccessibleBufferGoToNextCommand_action_def
      AccessibleBufferGoToPreviousCommand_action_def)


end
